theory Spec2Isabelle
  imports Main
begin

section \<open>Strings\<close>

text \<open>
  A Python \<^verbatim>\<open>str\<close> is a sequence of code points. It is modelled as a \<^typ>\<open>string\<close>
  whose characters stand for the code points below 256; every literal of
  \<^verbatim>\<open>scripts/add_headers.py\<close> lies in that range. The string methods the script
  calls are written out below for that range.
\<close>

definition startswith :: "string \<Rightarrow> string \<Rightarrow> bool" where
  "startswith s p = (take (length p) s = p)"

definition endswith :: "string \<Rightarrow> string \<Rightarrow> bool" where
  "endswith s p = (length p \<le> length s \<and> drop (length s - length p) s = p)"

text \<open>\<^verbatim>\<open>sub in s\<close> on two strings: \<^verbatim>\<open>sub\<close> occurs somewhere in \<^verbatim>\<open>s\<close>.\<close>

fun contains :: "string \<Rightarrow> string \<Rightarrow> bool" where
  "contains [] sub = (sub = [])"
| "contains (c # cs) sub = (startswith (c # cs) sub \<or> contains cs sub)"

text \<open>\<^verbatim>\<open>str.isspace\<close> on one code point below 256.\<close>

definition isspace :: "char \<Rightarrow> bool" where
  "isspace c = (c \<in> set [CHR 0x09, CHR 0x0A, CHR 0x0B, CHR 0x0C, CHR 0x0D, CHR 0x1C,
                           CHR 0x1D, CHR 0x1E, CHR 0x1F, CHR 0x20, CHR 0x85, CHR 0xA0])"

text \<open>The line boundaries of \<^verbatim>\<open>str.splitlines\<close> below 256.\<close>

definition is_linebreak :: "char \<Rightarrow> bool" where
  "is_linebreak c = (c \<in> set [CHR 0x0A, CHR 0x0B, CHR 0x0C, CHR 0x0D, CHR 0x1C,
                                CHR 0x1D, CHR 0x1E, CHR 0x85])"

text \<open>
  \<^verbatim>\<open>str.splitlines()\<close>: the text is cut at every line boundary, a carriage return
  followed by a line feed counts once, the boundaries are dropped, and a last line with no
  boundary after it is kept when it is not empty. The first argument is the line being read.
\<close>

fun splitlines_from :: "string \<Rightarrow> string \<Rightarrow> string list" where
  "splitlines_from cur [] = (if cur = [] then [] else [cur])"
| "splitlines_from cur [c] =
     (if is_linebreak c then [cur] else [cur @ [c]])"
| "splitlines_from cur (c # d # cs) =
     (if c = CHR 0x0D \<and> d = CHR 0x0A then cur # splitlines_from [] cs
      else if is_linebreak c then cur # splitlines_from [] (d # cs)
      else splitlines_from (cur @ [c]) (d # cs))"

definition splitlines :: "string \<Rightarrow> string list" where
  "splitlines text = splitlines_from [] text"

text \<open>\<^verbatim>\<open>str.strip()\<close> with no argument.\<close>

definition strip :: "string \<Rightarrow> string" where
  "strip s = rev (dropWhile isspace (rev (dropWhile isspace s)))"

text \<open>\<^verbatim>\<open>str.split()\<close> with no argument: the maximal runs of characters that are not
  whitespace. The first argument is the word being read.\<close>

fun split_from :: "string \<Rightarrow> string \<Rightarrow> string list" where
  "split_from cur [] = (if cur = [] then [] else [cur])"
| "split_from cur (c # cs) =
     (if isspace c then (if cur = [] then split_from [] cs else cur # split_from [] cs)
      else split_from (cur @ [c]) cs)"

definition split_ws :: "string \<Rightarrow> string list" where
  "split_ws s = split_from [] s"

text \<open>\<^verbatim>\<open>s.replace(a, b)\<close> for single characters \<^verbatim>\<open>a\<close> and \<^verbatim>\<open>b\<close>.\<close>

definition replace :: "string \<Rightarrow> char \<Rightarrow> char \<Rightarrow> string" where
  "replace s a b = map (\<lambda>c. if c = a then b else c) s"

text \<open>\<^verbatim>\<open>sep.join(parts)\<close>.\<close>

fun join :: "string \<Rightarrow> string list \<Rightarrow> string" where
  "join sep [] = []"
| "join sep [x] = x"
| "join sep (x # y # ys) = x @ sep @ join sep (y # ys)"

text \<open>\<^verbatim>\<open>str(n)\<close> for a natural number, as the f-string of \<^verbatim>\<open>main\<close> prints it.\<close>

definition digit :: "nat \<Rightarrow> char" where
  "digit d = char_of (48 + d)"

fun show_nat :: "nat \<Rightarrow> string" where
  "show_nat n = (if n < 10 then [digit n] else show_nat (n div 10) @ [digit (n mod 10)])"

section \<open>Errors\<close>

text \<open>
  The exceptions the script can meet and does not catch: \<^verbatim>\<open>read_text\<close> fails
  (the file is not UTF-8 text, or cannot be opened), \<^verbatim>\<open>write_text\<close> fails,
  \<^verbatim>\<open>str.format\<close> rejects the usage template.
\<close>

datatype error = ReadError | WriteError | FormatError

section \<open>The directory table\<close>

text \<open>
  One value of \<^verbatim>\<open>DIR_INFO\<close>. The script reads \<^verbatim>\<open>component\<close> and
  \<^verbatim>\<open>usage_template\<close> with a subscript and \<^verbatim>\<open>notes\<close> with \<^verbatim>\<open>get\<close> and a default,
  so only \<^verbatim>\<open>notes\<close> (the field \<open>info_notes\<close>) may be absent.
\<close>

record info =
  component :: string
  usage_template :: string
  info_notes :: "string option"

definition DEFAULT_INFO :: info where
  "DEFAULT_INFO = \<lparr>
     component = ''Texelation module'',
     usage_template = ''Referenced within the project wherever {feature} support is required.'',
     info_notes = Some ''Part of the Texelation AGPLv3 codebase.'' \<rparr>"

text \<open>The dictionary in the order it is written, which is the order a loop over it follows.\<close>

definition DIR_INFO :: "(string \<times> info) list" where
  "DIR_INFO = [
    (''client/cmd/texel-client'', \<lparr>
      component = ''remote client binary'',
      usage_template = ''Invoked by end users to render the server-hosted desktop locally; other tooling wraps this runtime via internal/runtime/client.Run.'',
      info_notes = Some ''Depends on the client runtime packages; keep it thin so alternate front-ends can reuse the same code.'' \<rparr>),
    (''client/cmd/texel-headless'', \<lparr>
      component = ''headless client harness'',
      usage_template = ''Used in CI and automated tests to validate protocol flows without opening a tcell screen.'',
      info_notes = Some ''Provides a minimal client for scripted scenarios.'' \<rparr>),
    (''client'', \<lparr>
      component = ''client runtime support library'',
      usage_template = ''Imported by the remote renderer to manage {feature} during live sessions.'',
      info_notes = Some ''Shared across multiple client binaries and tests.'' \<rparr>),
    (''apps/clock'', \<lparr>
      component = ''clock status widget'',
      usage_template = ''Loaded into the desktop chrome to display time information.'',
      info_notes = Some ''Uses shared texel primitives for drawing.'' \<rparr>),
    (''apps/statusbar'', \<lparr>
      component = ''status bar application'',
      usage_template = ''Added to desktops to render workspace and mode metadata.'',
      info_notes = Some ''Works in both local and remote deployments.'' \<rparr>),
    (''apps/texelterm/parser'', \<lparr>
      component = ''terminal parser module'',
      usage_template = ''Consumed by the terminal app when decoding VT sequences.'',
      info_notes = Some ''Keeps parsing concerns isolated from rendering.'' \<rparr>),
    (''apps/texelterm'', \<lparr>
      component = ''terminal application'',
      usage_template = ''Spawned by desktop factories to provide shell access.'',
      info_notes = Some ''Wraps PTY management and integrates with the parser package.'' \<rparr>),
    (''apps/welcome'', \<lparr>
      component = ''welcome application'',
      usage_template = ''Presented on new sessions to guide users through the interface.'',
      info_notes = Some ''Displays static content; simple example app.'' \<rparr>),
    (''internal/effects'', \<lparr>
      component = ''client effect subsystem'',
      usage_template = ''Used by the client runtime to orchestrate {feature} visuals before rendering.'',
      info_notes = Some ''Centralises every pane and workspace overlay so they can be configured via themes.'' \<rparr>),
    (''internal/runtime/client'', \<lparr>
      component = ''remote client runtime'',
      usage_template = ''Embedded by client binaries to handle {feature} as part of the render/event loop.'',
      info_notes = Some ''Owns session management, rendering, and protocol interaction for remote front-ends.'' \<rparr>),
    (''internal/runtime/server/testutil'', \<lparr>
      component = ''server runtime test utilities'',
      usage_template = ''Imported by server tests when they need {feature} helpers.'',
      info_notes = Some ''Not shipped with production binaries; only used in test code.'' \<rparr>),
    (''internal/runtime/server'', \<lparr>
      component = ''server runtime'',
      usage_template = ''Used by texel-server to coordinate {feature} when hosting apps and sessions.'',
      info_notes = Some ''This package bridges the legacy desktop code with the client/server protocol implementation.'' \<rparr>),
    (''protocol'', \<lparr>
      component = ''protocol definitions'',
      usage_template = ''Shared by clients and servers to encode {feature} messages over the wire.'',
      info_notes = Some ''Keep changes backward-compatible; any additions require coordinated version bumps.'' \<rparr>),
    (''texel/theme'', \<lparr>
      component = ''theme subsystem'',
      usage_template = ''Accessed by both server and client when reading {feature} from theme configurations.'',
      info_notes = Some ''Ensures user theme files always contain required defaults.'' \<rparr>),
    (''texel'', \<lparr>
      component = ''core desktop engine'',
      usage_template = ''Used throughout the project to implement {feature} inside the desktop and panes.'',
      info_notes = Some ''Legacy desktop logic migrated from the monolithic application.'' \<rparr>),
    (''cmd/texel-server'', \<lparr>
      component = ''server CLI harness'',
      usage_template = ''Executed by operators to start the production server that manages sessions.'',
      info_notes = Some ''Focuses on wiring flags and lifecycle around the internal runtime.'' \<rparr>),
    (''cmd/texel-stress'', \<lparr>
      component = ''stress harness'',
      usage_template = ''Run in integration environments to pressure-test server throughput and protocol stability.'',
      info_notes = Some ''Spawns multiple client connections to simulate load.'' \<rparr>)]"

section \<open>\<^verbatim>\<open>choose_info\<close>\<close>

text \<open>The test of line 106: the path is the key, or lies below it.\<close>

definition key_matches :: "string \<Rightarrow> string \<Rightarrow> bool" where
  "key_matches key relative = (startswith relative (key @ ''/'') \<or> relative = key)"

text \<open>The loop of lines 105 to 108 over the keys, with \<^verbatim>\<open>best_key\<close> as the state
  (\<^verbatim>\<open>None\<close> before the first match).\<close>

fun best_key_loop :: "string list \<Rightarrow> string \<Rightarrow> string option \<Rightarrow> string option" where
  "best_key_loop [] relative best_key = best_key"
| "best_key_loop (key # keys) relative best_key =
     best_key_loop keys relative
       (if key_matches key relative then
          (case best_key of
             None \<Rightarrow> Some key
           | Some b \<Rightarrow> if length key > length b then Some key else best_key)
        else best_key)"

text \<open>
  Lines 109 to 111 on a table given as a parameter. \<^verbatim>\<open>if best_key:\<close> is a truth test
  on a string or \<^verbatim>\<open>None\<close>, so the empty string counts as no key. The subscript
  \<^verbatim>\<open>DIR_INFO[best_key]\<close> reads a key the loop took from the table.
\<close>

definition choose_info_in :: "(string \<times> info) list \<Rightarrow> string \<Rightarrow> info" where
  "choose_info_in table relative =
     (case best_key_loop (map fst table) relative None of
        None \<Rightarrow> DEFAULT_INFO
      | Some best_key \<Rightarrow>
          if best_key \<noteq> [] then the (map_of table best_key) else DEFAULT_INFO)"

definition choose_info :: "string \<Rightarrow> info" where
  "choose_info relative = choose_info_in DIR_INFO relative"

section \<open>\<^verbatim>\<open>humanise\<close> and \<^verbatim>\<open>build_header\<close>\<close>

definition humanise :: "string \<Rightarrow> string" where
  "humanise name =
     (let words = split_ws (replace (replace name (CHR ''_'') (CHR '' '')) (CHR ''-'') (CHR '' ''))
      in if words = [] then name else join '' '' words)"

definition is_bench :: "string \<Rightarrow> bool" where
  "is_bench base = endswith base ''_bench_test''"

definition is_test :: "string \<Rightarrow> bool" where
  "is_test base = (endswith base ''_test'' \<or> endswith base ''_tests'')"

text \<open>Lines 127 to 133: \<^verbatim>\<open>words\<close>. The slice \<^verbatim>\<open>base[:-n]\<close> drops the last
  \<^verbatim>\<open>n\<close> characters; it is taken only when \<^verbatim>\<open>base\<close> has them.\<close>

definition feature_words :: "string \<Rightarrow> string" where
  "feature_words base =
     (if is_bench base then humanise (take (length base - 11) base)
      else if is_test base then
        (if endswith base ''_test'' then humanise (take (length base - 5) base)
         else humanise base)
      else humanise base)"

text \<open>Lines 134 to 136: \<^verbatim>\<open>feature\<close>. \<^verbatim>\<open>words\<close> is always a string there.\<close>

definition feature :: "string \<Rightarrow> string" where
  "feature base = (let words = feature_words base in if words = [] then ''main'' else words)"

text \<open>
  \<^verbatim>\<open>template.format(feature=feature, component=component)\<close>. Doubled braces stand for
  one brace, \<^verbatim>\<open>{feature}\<close> and \<^verbatim>\<open>{component}\<close> are replaced, and the values put in
  are not read again. A single closing brace, a field that is not closed and a field with
  another name raise in Python (\<^verbatim>\<open>ValueError\<close>, \<^verbatim>\<open>KeyError\<close>, \<^verbatim>\<open>IndexError\<close>):
  \<open>FormatError\<close> here. Fields with a conversion, a format specification, an attribute or
  an index are not modelled and give \<open>FormatError\<close> too; no template of the script has one.
  \<open>format_field\<close> reads a field after its opening brace, with the name read so far.
\<close>

definition prepend :: "string \<Rightarrow> error + string \<Rightarrow> error + string" where
  "prepend s r = (case r of Inl e \<Rightarrow> Inl e | Inr t \<Rightarrow> Inr (s @ t))"

fun format_text :: "string \<Rightarrow> string \<Rightarrow> string \<Rightarrow> error + string"
  and format_field :: "string \<Rightarrow> string \<Rightarrow> string \<Rightarrow> string \<Rightarrow> error + string" where
  "format_text ft cp [] = Inr []"
| "format_text ft cp [c] =
     (if c = CHR ''{'' \<or> c = CHR ''}'' then Inl FormatError else Inr [c])"
| "format_text ft cp (c # d # cs) =
     (if c = CHR ''{'' then
        (if d = CHR ''{'' then prepend ''{'' (format_text ft cp cs)
         else format_field ft cp [] (d # cs))
      else if c = CHR ''}'' then
        (if d = CHR ''}'' then prepend ''}'' (format_text ft cp cs) else Inl FormatError)
      else prepend [c] (format_text ft cp (d # cs)))"
| "format_field ft cp name [] = Inl FormatError"
| "format_field ft cp name (c # cs) =
     (if c = CHR ''}'' then
        (if name = ''feature'' then prepend ft (format_text ft cp cs)
         else if name = ''component'' then prepend cp (format_text ft cp cs)
         else Inl FormatError)
      else format_field ft cp (name @ [c]) cs)"

definition format :: "string \<Rightarrow> string \<Rightarrow> string \<Rightarrow> error + string" where
  "format template ft cp = format_text ft cp template"

datatype kind = Benchmark | Test | Production

text \<open>The branch that lines 138 to 147 take.\<close>

definition classify :: "string \<Rightarrow> kind" where
  "classify base = (if is_bench base then Benchmark else if is_test base then Test else Production)"

text \<open>Lines 138 to 147: \<^verbatim>\<open>summary\<close> and \<^verbatim>\<open>usage\<close>.\<close>

definition summary :: "string \<Rightarrow> info \<Rightarrow> string" where
  "summary base info =
     (if is_bench base then
        ''Benchmarks '' @ feature base @ '' performance within the '' @ component info @ ''.''
      else if is_test base then
        ''Exercises '' @ feature base @ '' behaviour to ensure the '' @ component info
          @ '' remains reliable.''
      else ''Implements '' @ feature base @ '' capabilities for the '' @ component info @ ''.'')"

definition usage :: "string \<Rightarrow> info \<Rightarrow> error + string" where
  "usage base info =
     (if is_bench base then
        Inr ''Run via `go test -bench` to observe hot-path behaviour under load.''
      else if is_test base then Inr ''Executed during `go test` to guard against regressions.''
      else format (usage_template info) (feature base) (component info))"

text \<open>
  \<^verbatim>\<open>build_header\<close>, with \<^verbatim>\<open>rel\<close> the path relative to \<^verbatim>\<open>ROOT\<close> as a string and
  \<^verbatim>\<open>base\<close> the stem of the path. The copyright line has the two code points
  \<^verbatim>\<open>U+00C2\<close> and \<^verbatim>\<open>U+00A9\<close> of the source file.
\<close>

definition build_header :: "string \<Rightarrow> string \<Rightarrow> info \<Rightarrow> error + string list" where
  "build_header rel base info =
     (case usage base info of
        Inl e \<Rightarrow> Inl e
      | Inr usage_line \<Rightarrow>
          (let notes = (case info_notes info of
                          Some n \<Rightarrow> n
                        | None \<Rightarrow> the (info_notes DEFAULT_INFO))
           in Inr [
             ''// Copyright '' @ [CHR 0xC2, CHR 0xA9] @ '' 2025 Texelation contributors'',
             ''// SPDX-License-Identifier: AGPL-3.0-or-later'',
             ''//'',
             ''// File: '' @ rel,
             ''// Summary: '' @ summary base info,
             ''// Usage: '' @ usage_line,
             ''// Notes: '' @ notes]))"

section \<open>Paths and files\<close>

text \<open>
  A candidate is a path below \<^verbatim>\<open>ROOT\<close>, written as the string of
  \<^verbatim>\<open>path.relative_to(ROOT)\<close>. \<^verbatim>\<open>path.name\<close> is what follows the last slash
  and \<^verbatim>\<open>path.stem\<close> is the name up to its last dot, when that dot is neither the
  first nor the last character of the name.
\<close>

definition path_name :: "string \<Rightarrow> string" where
  "path_name rel = rev (takeWhile (\<lambda>c. c \<noteq> CHR ''/'') (rev rel))"

definition stem :: "string \<Rightarrow> string" where
  "stem rel =
     (let name = path_name rel;
          after_dot = length (takeWhile (\<lambda>c. c \<noteq> CHR ''.'') (rev name))
      in if CHR ''.'' \<in> set name \<and> 0 < after_dot \<and> after_dot + 1 < length name
         then take (length name - after_dot - 1) name else name)"

text \<open>\<^verbatim>\<open>str(path)\<close> for the path \<^verbatim>\<open>ROOT / rel\<close>.\<close>

definition path_str :: "string \<Rightarrow> string \<Rightarrow> string" where
  "path_str root rel = (if root = ''/'' then root @ rel else root @ ''/'' @ rel)"

text \<open>
  What the file system holds at a path: text that can be read and written, text that can
  be read only, or something \<^verbatim>\<open>read_text(encoding="utf-8")\<close> raises on (bytes that
  are not UTF-8, a directory, a file that cannot be opened).
\<close>

datatype entry = Text string | ReadOnlyText string | Unreadable

type_synonym store = "string \<Rightarrow> entry"

definition read_text :: "store \<Rightarrow> string \<Rightarrow> error + string" where
  "read_text fs rel =
     (case fs rel of Text t \<Rightarrow> Inr t | ReadOnlyText t \<Rightarrow> Inr t | Unreadable \<Rightarrow> Inl ReadError)"

definition write_text :: "store \<Rightarrow> string \<Rightarrow> string \<Rightarrow> error + store" where
  "write_text fs rel t =
     (case fs rel of Text _ \<Rightarrow> Inr (fs(rel := Text t)) | _ \<Rightarrow> Inl WriteError)"

section \<open>\<^verbatim>\<open>insert_header\<close>\<close>

text \<open>The two \<^verbatim>\<open>while\<close> loops of lines 169 and 173 have one shape: the index moves on
  while it is in range and the line there passes a test.\<close>

function advance_while :: "(string \<Rightarrow> bool) \<Rightarrow> string list \<Rightarrow> nat \<Rightarrow> nat" where
  "advance_while test lines i =
     (if i < length lines \<and> test (lines ! i) then advance_while test lines (Suc i) else i)"
  by pat_completeness auto
termination
  by (relation "measure (\<lambda>(test, lines, i). length lines - i)") auto

declare advance_while.simps [simp del]

text \<open>Lines 168 to 174: \<^verbatim>\<open>insert_idx\<close>.\<close>

definition insert_idx :: "string list \<Rightarrow> nat" where
  "insert_idx lines =
     (let i = advance_while (\<lambda>l. startswith l ''//go:build'') lines 0;
          i = (if i < length lines \<and> startswith (lines ! i) ''// +build'' then Suc i else i)
      in advance_while (\<lambda>l. strip l = []) lines i)"

text \<open>Line 165: the test that ends \<^verbatim>\<open>insert_header\<close> early. \<^verbatim>\<open>in\<close> is applied to a
  list of lines, so it asks for a line equal to the marker.\<close>

definition already_marked :: "string \<Rightarrow> bool" where
  "already_marked text = (''SPDX-License-Identifier'' \<in> set (take 5 (splitlines text)))"

text \<open>Line 178: \<^verbatim>\<open>new_lines\<close>.\<close>

definition new_lines :: "string list \<Rightarrow> string list \<Rightarrow> string list" where
  "new_lines lines header =
     take (insert_idx lines) lines @ header @ [[]] @ drop (insert_idx lines) lines"

text \<open>
  What \<^verbatim>\<open>insert_header\<close> does with the text it has read: \<open>Inr None\<close> when it
  returns at line 166 and writes nothing, \<open>Inr (Some t)\<close> when it writes \<open>t\<close> at
  line 179, \<open>Inl e\<close> when building the header raises.
\<close>

definition insert_text :: "string \<Rightarrow> string \<Rightarrow> error + string option" where
  "insert_text rel text =
     (if already_marked text then Inr None
      else
        (let lines = splitlines text;
             info = choose_info rel
         in case build_header rel (stem rel) info of
              Inl e \<Rightarrow> Inl e
            | Inr header \<Rightarrow> Inr (Some (join [CHR 0x0A] (new_lines lines header) @ [CHR 0x0A]))))"

text \<open>\<^verbatim>\<open>insert_header\<close> on the store. The Python function returns \<^verbatim>\<open>None\<close> on both
  paths; what it gives back here is the store it leaves.\<close>

definition insert_header :: "string \<Rightarrow> store \<Rightarrow> error + store" where
  "insert_header rel fs =
     (case read_text fs rel of
        Inl e \<Rightarrow> Inl e
      | Inr text \<Rightarrow>
          (case insert_text rel text of
             Inl e \<Rightarrow> Inl e
           | Inr None \<Rightarrow> Inr fs
           | Inr (Some t) \<Rightarrow> write_text fs rel t))"

section \<open>\<^verbatim>\<open>main\<close>\<close>

text \<open>
  The loop of lines 184 to 188 over the paths that \<^verbatim>\<open>ROOT.rglob("*.go")\<close> yields,
  given as a list. The state is the store and the list \<^verbatim>\<open>modified\<close>. An exception
  leaves the loop: the result is then the store at that moment and the error.
\<close>

fun main_loop ::
  "string \<Rightarrow> string list \<Rightarrow> store \<Rightarrow> string list \<Rightarrow> store \<times> (error + string list)" where
  "main_loop root [] fs modified = (fs, Inr modified)"
| "main_loop root (rel # rels) fs modified =
     (if contains (path_str root rel) ''/vendor/'' then main_loop root rels fs modified
      else
        (case insert_header rel fs of
           Inl e \<Rightarrow> (fs, Inl e)
         | Inr fs' \<Rightarrow> main_loop root rels fs' (modified @ [rel])))"

text \<open>\<^verbatim>\<open>main\<close>: the store it leaves and, when no exception ends it, the line it prints.\<close>

definition main :: "string \<Rightarrow> string list \<Rightarrow> store \<Rightarrow> store \<times> (error + string)" where
  "main root rels fs =
     (case main_loop root rels fs [] of
        (fs', Inl e) \<Rightarrow> (fs', Inl e)
      | (fs', Inr modified) \<Rightarrow>
          (fs', Inr (''Updated '' @ show_nat (length modified) @ '' Go files'')))"

section \<open>The feature label in the words of the specification\<close>

text \<open>The name that lines 129 to 133 hand to \<^verbatim>\<open>humanise\<close>.\<close>

definition stripped_base :: "string \<Rightarrow> string" where
  "stripped_base base =
     (if endswith base ''_bench_test'' then take (length base - 11) base
      else if endswith base ''_test'' then take (length base - 5) base
      else base)"

text \<open>
  The specification derives the feature label in three steps: strip the classification
  suffix from the base name, replace the separators \<^verbatim>\<open>_\<close> and \<^verbatim>\<open>-\<close> with spaces,
  collapse to a phrase joined by single spaces; an empty phrase becomes \<^verbatim>\<open>main\<close>.
  \<open>spec_feature\<close> follows these words, with every suffix that classifies a file as the
  classification suffix. It is what the code is compared with, not a part of the code.
\<close>

definition spec_strip_suffix :: "string \<Rightarrow> string" where
  "spec_strip_suffix base =
     (if endswith base ''_bench_test'' then take (length base - 11) base
      else if endswith base ''_test'' then take (length base - 5) base
      else if endswith base ''_tests'' then take (length base - 6) base
      else base)"

definition spec_phrase :: "string \<Rightarrow> string" where
  "spec_phrase name =
     join '' '' (split_ws (replace (replace name (CHR ''_'') (CHR '' '')) (CHR ''-'') (CHR '' '')))"

definition spec_feature :: "string \<Rightarrow> string" where
  "spec_feature base =
     (if spec_phrase (spec_strip_suffix base) = [] then ''main''
      else spec_phrase (spec_strip_suffix base))"

section \<open>Lines and preambles\<close>

text \<open>A string that \<^verbatim>\<open>splitlines\<close> leaves in one piece.\<close>

definition no_linebreak :: "string \<Rightarrow> bool" where
  "no_linebreak s = (\<forall>c \<in> set s. \<not> is_linebreak c)"

text \<open>
  The preamble in the words of the specification: leading build-directive lines
  \<open>ds\<close>, at most one alternate-directive line \<open>alt\<close> after them, then blank lines
  \<open>bs\<close>, and \<open>rest\<close> from the first line of actual content on. Each part is as long
  as it can be: \<open>rest\<close> does not begin with a blank line and, when nothing was
  skipped before it, with no directive line either.
\<close>

definition preamble :: "string list \<Rightarrow> string list \<Rightarrow> string list \<Rightarrow> string list \<Rightarrow> bool" where
  "preamble ds alt bs rest =
     ((\<forall>d \<in> set ds. startswith d ''//go:build'') \<and>
      (alt = [] \<or> (\<exists>a. alt = [a] \<and> startswith a ''// +build'')) \<and>
      (\<forall>b \<in> set bs. strip b = []) \<and>
      (rest = [] \<or> strip (hd rest) \<noteq> []) \<and>
      (alt = [] \<and> bs = [] \<and> rest \<noteq> [] \<longrightarrow>
         \<not> startswith (hd rest) ''//go:build'' \<and> \<not> startswith (hd rest) ''// +build''))"

section \<open>Suffixes, words and phrases\<close>

lemma endswith_iff: "endswith s p = (\<exists>pre. s = pre @ p)"
proof
  assume "endswith s p"
  then have "s = take (length s - length p) s @ p"
    by (metis append_take_drop_id endswith_def)
  then show "\<exists>pre. s = pre @ p" ..
next
  assume "\<exists>pre. s = pre @ p"
  then show "endswith s p" by (auto simp: endswith_def)
qed

lemma endswith_last: "endswith s p \<Longrightarrow> p \<noteq> [] \<Longrightarrow> last s = last p"
  by (auto simp: endswith_iff)

lemma tests_not_test: "endswith base ''_tests'' \<Longrightarrow> \<not> endswith base ''_test''"
  using endswith_last [of base "''_tests''"] endswith_last [of base "''_test''"] by auto

lemma tests_not_bench: "endswith base ''_tests'' \<Longrightarrow> \<not> endswith base ''_bench_test''"
  using endswith_last [of base "''_tests''"] endswith_last [of base "''_bench_test''"] by auto

lemma bench_is_test: "endswith base ''_bench_test'' \<Longrightarrow> endswith base ''_test''"
proof -
  assume "endswith base ''_bench_test''"
  then obtain pre where "base = pre @ ''_bench_test''" by (auto simp: endswith_iff)
  then have "base = (pre @ ''_bench'') @ ''_test''" by simp
  then show ?thesis unfolding endswith_iff by blast
qed

lemma split_from_no_empty: "[] \<notin> set (split_from cur s)"
  by (induction s arbitrary: cur) auto

lemma join_not_empty: "ws \<noteq> [] \<Longrightarrow> [] \<notin> set ws \<Longrightarrow> join sep ws \<noteq> []"
  by (induction sep ws rule: join.induct) auto

lemma humanise_not_empty: "name \<noteq> [] \<Longrightarrow> humanise name \<noteq> []"
  by (simp add: humanise_def Let_def split_ws_def join_not_empty split_from_no_empty)

lemma humanise_empty: "humanise [] = []"
  by (simp add: humanise_def replace_def split_ws_def)

lemma feature_words_stripped: "feature_words base = humanise (stripped_base base)"
  by (auto simp: feature_words_def stripped_base_def is_bench_def is_test_def dest: bench_is_test)

lemma feature_stripped:
  "feature base = (if stripped_base base = [] then ''main'' else humanise (stripped_base base))"
  using humanise_not_empty [of "stripped_base base"]
  by (auto simp: feature_def feature_words_stripped Let_def humanise_empty)

lemma humanise_phrase:
  "humanise name = (if spec_phrase name = [] then name else spec_phrase name)"
  by (auto simp: humanise_def spec_phrase_def Let_def split_ws_def join_not_empty split_from_no_empty)

lemma stripped_base_empty:
  "stripped_base base = [] \<longleftrightarrow> base = [] \<or> base = ''_test'' \<or> base = ''_bench_test''"
  by (auto simp: stripped_base_def endswith_iff)


lemmas label_defs = feature_def feature_words_def is_bench_def is_test_def endswith_def
  humanise_def replace_def split_ws_def isspace_def classify_def stripped_base_def
  spec_feature_def spec_phrase_def spec_strip_suffix_def summary_def

section \<open>Classification and the feature label\<close>

text \<open>
  Claim C10. A base name that ends with \<^verbatim>\<open>_tests\<close> (it then does not end with
  \<^verbatim>\<open>_test\<close>) is classified as a test, and its suffix is not stripped: the feature
  label is the humanised base name as a whole, and the header carries the test summary
  with that label. The base name \<^verbatim>\<open>foo_tests\<close> gets the label \<^verbatim>\<open>foo tests\<close>.
\<close>

theorem tests_suffix_kept:
  "endswith base ''_tests'' \<Longrightarrow>
     classify base = Test \<and> feature base = humanise base \<and>
     summary base info = ''Exercises '' @ humanise base @ '' behaviour to ensure the ''
        @ component info @ '' remains reliable.'' \<and>
     (\<exists>h. build_header rel base info = Inr h \<and> h ! 4 = ''// Summary: '' @ summary base info)"
proof -
  assume t: "endswith base ''_tests''"
  have nb: "\<not> is_bench base" using tests_not_bench [OF t] by (simp add: is_bench_def)
  have it: "is_test base" using t by (simp add: is_test_def)
  have "base \<noteq> []" using t by (auto simp: endswith_def)
  moreover have "stripped_base base = base"
    using tests_not_bench [OF t] tests_not_test [OF t] by (simp add: stripped_base_def)
  ultimately have f: "feature base = humanise base" by (simp add: feature_stripped)
  have u: "usage base info = Inr ''Executed during `go test` to guard against regressions.''"
    using nb it by (simp add: usage_def)
  show ?thesis
    using nb it f u by (simp add: classify_def summary_def build_header_def)
qed

text \<open>The base name \<^verbatim>\<open>foo_tests\<close>, with the default directory information.\<close>

theorem tests_suffix_kept_witness:
  "endswith ''foo_tests'' ''_tests'' \<and> \<not> endswith ''foo_tests'' ''_test'' \<and>
   classify ''foo_tests'' = Test \<and> feature ''foo_tests'' = ''foo tests'' \<and>
   summary ''foo_tests'' DEFAULT_INFO =
     ''Exercises foo tests behaviour to ensure the Texelation module remains reliable.''"
proof -
  have e: "endswith ''foo_tests'' ''_tests''" by (simp add: endswith_def)
  have h: "humanise ''foo_tests'' = ''foo tests''" by (simp add: label_defs)
  have c: "component DEFAULT_INFO = ''Texelation module''" by (simp add: DEFAULT_INFO_def)
  have n: "\<not> endswith ''foo_tests'' ''_test''" by (simp add: endswith_def)
  show ?thesis
    using e n tests_suffix_kept [OF e, of DEFAULT_INFO "''x/foo_tests.go''"] by (simp add: h c)
qed

text \<open>
  As the specification words it, every base name that ends with a test suffix loses that
  suffix in the feature label. \<^verbatim>\<open>unit_tests\<close> is classified as a test and keeps it.
\<close>

theorem feature_strips_counterexample:
  "classify ''unit_tests'' = Test \<and> spec_feature ''unit_tests'' = ''unit'' \<and>
   feature ''unit_tests'' = ''unit tests''"
  by (simp add: label_defs)

text \<open>
  Claim C5, amended. A base name that ends with \<^verbatim>\<open>_bench_test\<close> is classified
  benchmark, another one that ends with \<^verbatim>\<open>_test\<close> or \<^verbatim>\<open>_tests\<close> is classified test,
  any other production. The feature label is made from the base name without a final
  \<^verbatim>\<open>_bench_test\<close> or \<^verbatim>\<open>_test\<close> (a final \<^verbatim>\<open>_tests\<close> stays): \<^verbatim>\<open>main\<close> when that name
  is empty, the name itself when it has no word, and otherwise its words joined by single
  spaces, the separators \<^verbatim>\<open>_\<close> and \<^verbatim>\<open>-\<close> counting as spaces. Away from
  \<^verbatim>\<open>_tests\<close> and from names without a word this is the label of the specification.
  \<^verbatim>\<open>foo_bar_test\<close> is a test with label \<^verbatim>\<open>foo bar\<close>, \<^verbatim>\<open>foo_bench_test\<close> a benchmark
  with label \<^verbatim>\<open>foo\<close>.
\<close>

theorem classify_and_feature:
  "classify base =
     (if endswith base ''_bench_test'' then Benchmark
      else if endswith base ''_test'' \<or> endswith base ''_tests'' then Test
      else Production) \<and>
   feature base =
     (if stripped_base base = [] then ''main''
      else if spec_phrase (stripped_base base) = [] then stripped_base base
      else spec_phrase (stripped_base base)) \<and>
   (\<not> endswith base ''_tests'' \<and>
    (stripped_base base = [] \<or> spec_phrase (stripped_base base) \<noteq> [])
      \<longrightarrow> feature base = spec_feature base) \<and>
   classify ''foo_bar_test'' = Test \<and> feature ''foo_bar_test'' = ''foo bar'' \<and>
   classify ''foo_bench_test'' = Benchmark \<and> feature ''foo_bench_test'' = ''foo''"
proof -
  have 1: "classify base =
     (if endswith base ''_bench_test'' then Benchmark
      else if endswith base ''_test'' \<or> endswith base ''_tests'' then Test
      else Production)"
    by (simp add: classify_def is_bench_def is_test_def)
  have 2: "feature base =
     (if stripped_base base = [] then ''main''
      else if spec_phrase (stripped_base base) = [] then stripped_base base
      else spec_phrase (stripped_base base))"
    by (simp add: feature_stripped humanise_phrase)
  have 3: "feature base = spec_feature base"
    if "\<not> endswith base ''_tests''"
      and "stripped_base base = [] \<or> spec_phrase (stripped_base base) \<noteq> []"
  proof -
    have "spec_strip_suffix base = stripped_base base"
      using that(1) by (simp add: spec_strip_suffix_def stripped_base_def)
    moreover have "spec_phrase [] = []" by (simp add: spec_phrase_def replace_def split_ws_def)
    ultimately show ?thesis using that(2) by (auto simp: 2 spec_feature_def)
  qed
  have 4: "classify ''foo_bar_test'' = Test" "feature ''foo_bar_test'' = ''foo bar''"
    "classify ''foo_bench_test'' = Benchmark" "feature ''foo_bench_test'' = ''foo''"
    by (simp_all add: label_defs)
  show ?thesis using 1 2 3 4 by blast
qed

text \<open>The base name \<^verbatim>\<open>foo_bar_test\<close> meets the conditions of the third part.\<close>

theorem classify_and_feature_witness:
  "\<not> endswith ''foo_bar_test'' ''_tests'' \<and> spec_phrase (stripped_base ''foo_bar_test'') \<noteq> [] \<and>
   classify ''foo_bar_test'' = Test \<and>
   feature ''foo_bar_test'' = spec_feature ''foo_bar_test'' \<and>
   spec_feature ''foo_bar_test'' = ''foo bar''"
proof -
  have a: "\<not> endswith ''foo_bar_test'' ''_tests''" by (simp add: endswith_def)
  have b: "spec_phrase (stripped_base ''foo_bar_test'') \<noteq> []" by (simp add: label_defs)
  have c: "spec_feature ''foo_bar_test'' = ''foo bar''" by (simp add: label_defs)
  have d: "feature ''foo_bar_test'' = spec_feature ''foo_bar_test''"
    using a b classify_and_feature [of "''foo_bar_test''"] by blast
  have e: "classify ''foo_bar_test'' = Test"
    using classify_and_feature [of "''foo_bar_test''"] by blast
  show ?thesis using a b c d e by blast
qed

text \<open>
  The base name \<^verbatim>\<open>__test\<close>: after the suffix is stripped one separator is left, the
  phrase of the specification is empty, and the label of the code is that separator.
\<close>

theorem empty_label_counterexample:
  "spec_phrase (spec_strip_suffix ''__test'') = [] \<and> spec_feature ''__test'' = ''main'' \<and>
   feature ''__test'' = ''_'' \<and> feature ''__test'' \<noteq> ''main''"
  by (simp add: label_defs)

text \<open>
  Claim C4, amended. The feature label is \<^verbatim>\<open>main\<close> when nothing is left of the base
  name once a final \<^verbatim>\<open>_bench_test\<close> or \<^verbatim>\<open>_test\<close> is stripped, which is so for the base
  names \<^verbatim>\<open>_bench_test\<close>, \<^verbatim>\<open>_test\<close> and the empty one only. When something is left
  that has no word in it (separators and whitespace only), the label is what is left,
  unchanged, and not \<^verbatim>\<open>main\<close>.
\<close>

theorem empty_label_main:
  "(stripped_base base = [] \<longrightarrow> feature base = ''main'') \<and>
   (stripped_base base = [] \<longleftrightarrow> base = [] \<or> base = ''_test'' \<or> base = ''_bench_test'') \<and>
   (stripped_base base \<noteq> [] \<and> spec_phrase (stripped_base base) = []
      \<longrightarrow> feature base = stripped_base base \<and> feature base \<noteq> ''main'')"
proof -
  have "spec_phrase ''main'' \<noteq> []" by (simp add: label_defs)
  then have "stripped_base base \<noteq> ''main''" if "spec_phrase (stripped_base base) = []"
    using that by auto
  then show ?thesis
    using stripped_base_empty [of base] by (auto simp: feature_stripped humanise_phrase)
qed

text \<open>The base names \<^verbatim>\<open>_test\<close>, \<^verbatim>\<open>_bench_test\<close> and \<^verbatim>\<open>-_test\<close>.\<close>

theorem empty_label_main_witness:
  "stripped_base ''_test'' = [] \<and> feature ''_test'' = ''main'' \<and>
   feature ''_bench_test'' = ''main'' \<and>
   stripped_base ''-_test'' \<noteq> [] \<and> spec_phrase (stripped_base ''-_test'') = [] \<and>
   feature ''-_test'' = ''-''"
proof -
  have a: "stripped_base ''_test'' = []" "stripped_base ''_bench_test'' = []"
    by (simp_all add: label_defs)
  have b: "stripped_base ''-_test'' = ''-''" "spec_phrase ''-'' = []"
    by (simp_all add: label_defs)
  show ?thesis
    using a b empty_label_main [of "''_test''"] empty_label_main [of "''_bench_test''"]
      empty_label_main [of "''-_test''"] by simp
qed

section \<open>The longest matching key\<close>

lemma key_matches_take: "key_matches key relative \<Longrightarrow> take (length key) relative = key"
proof -
  assume "key_matches key relative"
  then consider "take (length key + 1) relative = key @ ''/''" | "relative = key"
    by (auto simp: key_matches_def startswith_def)
  then show ?thesis
  proof cases
    case 1
    then have "take (length key) (take (length key + 1) relative) = take (length key) (key @ ''/'')"
      by simp
    then show ?thesis by (simp add: min_def)
  next
    case 2
    then show ?thesis by simp
  qed
qed

lemma key_matches_same_length:
  "key_matches k relative \<Longrightarrow> key_matches k' relative \<Longrightarrow> length k = length k' \<Longrightarrow> k = k'"
  using key_matches_take [of k relative] key_matches_take [of k' relative] by metis

lemma best_key_loop_none:
  "\<forall>k \<in> set keys. \<not> key_matches k relative \<Longrightarrow> best_key_loop keys relative best = best"
  by (induction keys arbitrary: best) auto

lemma best_key_loop_some:
  "best_key_loop keys relative best = Some k \<Longrightarrow>
     (k \<in> set keys \<and> key_matches k relative) \<or> best = Some k"
  by (induction keys arbitrary: best) (fastforce split: if_splits option.splits)+

lemma best_key_loop_keeps:
  "best = Some b \<Longrightarrow> \<exists>k. best_key_loop keys relative best = Some k \<and> length b \<le> length k"
proof (induction keys arbitrary: best b)
  case Nil
  then show ?case by simp
next
  case (Cons key keys)
  show ?case
  proof (cases "key_matches key relative \<and> length key > length b")
    case True
    then have "best_key_loop (key # keys) relative best = best_key_loop keys relative (Some key)"
      using Cons.prems by simp
    moreover obtain k where "best_key_loop keys relative (Some key) = Some k" "length key \<le> length k"
      using Cons.IH [of "Some key" key] by auto
    ultimately show ?thesis using True by auto
  next
    case False
    then have "best_key_loop (key # keys) relative best = best_key_loop keys relative best"
      using Cons.prems by auto
    then show ?thesis using Cons.IH [OF Cons.prems] by simp
  qed
qed

lemma best_key_loop_longest:
  "best_key_loop keys relative best = Some k \<Longrightarrow> k' \<in> set keys \<Longrightarrow> key_matches k' relative
     \<Longrightarrow> length k' \<le> length k"
proof (induction keys arbitrary: best)
  case Nil
  then show ?case by simp
next
  case (Cons key keys)
  let ?next = "if key_matches key relative then
          (case best of
             None \<Rightarrow> Some key
           | Some b \<Rightarrow> if length key > length b then Some key else best)
        else best"
  have run: "best_key_loop keys relative ?next = Some k" using Cons.prems(1) by simp
  show ?case
  proof (cases "k' \<in> set keys")
    case True
    then show ?thesis using Cons.IH [OF run _ Cons.prems(3)] by simp
  next
    case False
    then have k': "k' = key" using Cons.prems(2) by simp
    have "\<exists>b. ?next = Some b \<and> length key \<le> length b"
      using Cons.prems(3) k' by (cases best) auto
    then obtain b where b: "?next = Some b" "length key \<le> length b" by blast
    then show ?thesis using best_key_loop_keeps [OF b(1), of keys relative] run k' by auto
  qed
qed

lemma best_key_loop_found:
  "k' \<in> set keys \<Longrightarrow> key_matches k' relative \<Longrightarrow>
     \<exists>k. best_key_loop keys relative None = Some k \<and> k \<in> set keys \<and> key_matches k relative \<and>
         (\<forall>k'' \<in> set keys. key_matches k'' relative \<longrightarrow> length k'' \<le> length k)"
proof -
  assume a: "k' \<in> set keys" "key_matches k' relative"
  have "best_key_loop keys relative None \<noteq> None"
    using a
  proof (induction keys)
    case Nil
    then show ?case by simp
  next
    case (Cons key keys)
    show ?case
    proof (cases "key_matches key relative")
      case True
      then show ?thesis using best_key_loop_keeps [of "Some key" key keys relative] by auto
    next
      case False
      then show ?thesis using Cons by auto
    qed
  qed
  then obtain k where k: "best_key_loop keys relative None = Some k" by auto
  then have "k \<in> set keys \<and> key_matches k relative" using best_key_loop_some by fastforce
  then show ?thesis using k best_key_loop_longest [OF k] by blast
qed

lemma DIR_INFO_keys: "distinct (map fst DIR_INFO) \<and> [] \<notin> fst ` set DIR_INFO"
  by (simp add: DIR_INFO_def)

text \<open>An empty key is no key for line 109.\<close>

lemma choose_info_empty_key:
  "choose_info_in [([], \<lparr>component = ''A'', usage_template = [], info_notes = None\<rparr>)] ''/x''
     = DEFAULT_INFO"
  by (simp add: choose_info_in_def key_matches_def startswith_def)

text \<open>
  Claim C3. On a table whose keys differ from one another and are not empty, as those of
  \<^verbatim>\<open>DIR_INFO\<close> are, \<^verbatim>\<open>choose_info\<close> gives the default information when no key matches
  the path (the path is the key, or starts with the key and a slash), and otherwise the
  information of the matching key that no other matching key exceeds in length; there is
  such a key whenever some key matches.
\<close>

theorem choose_info_longest_prefix:
  assumes "distinct (map fst table)" and "[] \<notin> fst ` set table"
  shows "((\<forall>k \<in> fst ` set table. \<not> key_matches k relative)
            \<longrightarrow> choose_info_in table relative = DEFAULT_INFO) \<and>
         (\<forall>key info. (key, info) \<in> set table \<and> key_matches key relative \<and>
            (\<forall>k \<in> fst ` set table. key_matches k relative \<longrightarrow> length k \<le> length key)
            \<longrightarrow> choose_info_in table relative = info) \<and>
         ((\<exists>k \<in> fst ` set table. key_matches k relative)
            \<longrightarrow> (\<exists>key info. (key, info) \<in> set table \<and> key_matches key relative \<and>
                  (\<forall>k \<in> fst ` set table. key_matches k relative \<longrightarrow> length k \<le> length key) \<and>
                  choose_info_in table relative = info))"
proof -
  have none: "choose_info_in table relative = DEFAULT_INFO"
    if "\<forall>k \<in> fst ` set table. \<not> key_matches k relative"
    using that best_key_loop_none [of "map fst table" relative None]
    by (simp add: choose_info_in_def)
  have longest: "choose_info_in table relative = info"
    if h: "(key, info) \<in> set table" "key_matches key relative"
      "\<forall>k \<in> fst ` set table. key_matches k relative \<longrightarrow> length k \<le> length key"
    for key info
  proof -
    have mem: "key \<in> set (map fst table)" using h(1) by force
    then obtain k where k: "best_key_loop (map fst table) relative None = Some k"
      "k \<in> set (map fst table)" "key_matches k relative"
      "\<forall>k'' \<in> set (map fst table). key_matches k'' relative \<longrightarrow> length k'' \<le> length k"
      using best_key_loop_found [OF _ h(2)] by blast
    have "length k \<le> length key" using k(2,3) h(3) by auto
    moreover have "length key \<le> length k" using k(4) mem h(2) by blast
    ultimately have "length k = length key" by simp
    then have "k = key" using key_matches_same_length k(3) h(2) by blast
    moreover have "key \<noteq> []" using assms(2) h(1) by force
    moreover have "map_of table key = Some info" using assms(1) h(1) by simp
    ultimately show ?thesis using k(1) by (simp add: choose_info_in_def)
  qed
  have some: "\<exists>key info. (key, info) \<in> set table \<and> key_matches key relative \<and>
                  (\<forall>k \<in> fst ` set table. key_matches k relative \<longrightarrow> length k \<le> length key) \<and>
                  choose_info_in table relative = info"
    if h: "\<exists>k \<in> fst ` set table. key_matches k relative"
  proof -
    obtain k' where "k' \<in> set (map fst table)" "key_matches k' relative" using h by auto
    then obtain k where k: "k \<in> set (map fst table)" "key_matches k relative"
      "\<forall>k'' \<in> set (map fst table). key_matches k'' relative \<longrightarrow> length k'' \<le> length k"
      using best_key_loop_found by blast
    then obtain info where i: "(k, info) \<in> set table" by auto
    then have "choose_info_in table relative = info" using longest [of k info] k by simp
    then show ?thesis using i k by auto
  qed
  show ?thesis using none longest some by blast
qed

text \<open>
  With rules for \<^verbatim>\<open>a\<close> and \<^verbatim>\<open>a/b\<close>, the path \<^verbatim>\<open>a/b/c\<close> gets the rule of \<^verbatim>\<open>a/b\<close>,
  \<^verbatim>\<open>a/x\<close> the rule of \<^verbatim>\<open>a\<close> and \<^verbatim>\<open>ab/c\<close> the default; on \<^verbatim>\<open>DIR_INFO\<close> a file
  of the terminal parser gets the parser's entry and not the terminal's.
\<close>

theorem choose_info_longest_prefix_witness:
  "choose_info_in
     [(''a'', \<lparr>component = ''A'', usage_template = [], info_notes = None\<rparr>),
      (''a/b'', \<lparr>component = ''B'', usage_template = [], info_notes = None\<rparr>)] ''a/b/c''
     = \<lparr>component = ''B'', usage_template = [], info_notes = None\<rparr> \<and>
   choose_info_in
     [(''a'', \<lparr>component = ''A'', usage_template = [], info_notes = None\<rparr>),
      (''a/b'', \<lparr>component = ''B'', usage_template = [], info_notes = None\<rparr>)] ''a/x''
     = \<lparr>component = ''A'', usage_template = [], info_notes = None\<rparr> \<and>
   choose_info_in
     [(''a'', \<lparr>component = ''A'', usage_template = [], info_notes = None\<rparr>),
      (''a/b'', \<lparr>component = ''B'', usage_template = [], info_notes = None\<rparr>)] ''ab/c''
     = DEFAULT_INFO \<and>
   component (choose_info ''apps/texelterm/parser/vt.go'') = ''terminal parser module'' \<and>
   component (choose_info ''apps/texelterm/term.go'') = ''terminal application'' \<and>
   choose_info ''docs/readme.go'' = DEFAULT_INFO"
proof -
  let ?A = "\<lparr>component = ''A'', usage_template = [], info_notes = None\<rparr>"
  let ?B = "\<lparr>component = ''B'', usage_template = [], info_notes = None\<rparr>"
  let ?t = "[(''a'', ?A), (''a/b'', ?B)]"
  have t: "distinct (map fst ?t)" "[] \<notin> fst ` set ?t" by simp_all
  have 1: "choose_info_in ?t ''a/b/c'' = ?B"
  proof -
    have "(''a/b'', ?B) \<in> set ?t \<and> key_matches ''a/b'' ''a/b/c'' \<and>
          (\<forall>k \<in> fst ` set ?t. key_matches k ''a/b/c'' \<longrightarrow> length k \<le> length ''a/b'')"
      by (simp add: key_matches_def startswith_def)
    then show ?thesis using choose_info_longest_prefix [OF t, of "''a/b/c''"] by blast
  qed
  have 2: "choose_info_in ?t ''a/x'' = ?A"
  proof -
    have "(''a'', ?A) \<in> set ?t \<and> key_matches ''a'' ''a/x'' \<and>
          (\<forall>k \<in> fst ` set ?t. key_matches k ''a/x'' \<longrightarrow> length k \<le> length ''a'')"
      by (simp add: key_matches_def startswith_def)
    then show ?thesis using choose_info_longest_prefix [OF t, of "''a/x''"] by blast
  qed
  have 3: "choose_info_in ?t ''ab/c'' = DEFAULT_INFO"
  proof -
    have "\<forall>k \<in> fst ` set ?t. \<not> key_matches k ''ab/c''"
      by (simp add: key_matches_def startswith_def)
    then show ?thesis using choose_info_longest_prefix [OF t, of "''ab/c''"] by blast
  qed
  have d: "distinct (map fst DIR_INFO)" "[] \<notin> fst ` set DIR_INFO"
    using DIR_INFO_keys by simp_all
  have 4: "component (choose_info ''apps/texelterm/parser/vt.go'') = ''terminal parser module''"
  proof -
    let ?i = "\<lparr>component = ''terminal parser module'',
      usage_template = ''Consumed by the terminal app when decoding VT sequences.'',
      info_notes = Some ''Keeps parsing concerns isolated from rendering.'' \<rparr>"
    have "(''apps/texelterm/parser'', ?i) \<in> set DIR_INFO \<and>
          key_matches ''apps/texelterm/parser'' ''apps/texelterm/parser/vt.go'' \<and>
          (\<forall>k \<in> fst ` set DIR_INFO. key_matches k ''apps/texelterm/parser/vt.go''
              \<longrightarrow> length k \<le> length ''apps/texelterm/parser'')"
      by (simp add: DIR_INFO_def key_matches_def startswith_def)
    then have "choose_info_in DIR_INFO ''apps/texelterm/parser/vt.go'' = ?i"
      using choose_info_longest_prefix [OF d, of "''apps/texelterm/parser/vt.go''"] by blast
    then show ?thesis by (simp add: choose_info_def)
  qed
  have 5: "component (choose_info ''apps/texelterm/term.go'') = ''terminal application''"
  proof -
    let ?i = "\<lparr>component = ''terminal application'',
      usage_template = ''Spawned by desktop factories to provide shell access.'',
      info_notes = Some ''Wraps PTY management and integrates with the parser package.'' \<rparr>"
    have "(''apps/texelterm'', ?i) \<in> set DIR_INFO \<and>
          key_matches ''apps/texelterm'' ''apps/texelterm/term.go'' \<and>
          (\<forall>k \<in> fst ` set DIR_INFO. key_matches k ''apps/texelterm/term.go''
              \<longrightarrow> length k \<le> length ''apps/texelterm'')"
      by (simp add: DIR_INFO_def key_matches_def startswith_def)
    then have "choose_info_in DIR_INFO ''apps/texelterm/term.go'' = ?i"
      using choose_info_longest_prefix [OF d, of "''apps/texelterm/term.go''"] by blast
    then show ?thesis by (simp add: choose_info_def)
  qed
  have 6: "choose_info ''docs/readme.go'' = DEFAULT_INFO"
  proof -
    have "\<forall>k \<in> fst ` set DIR_INFO. \<not> key_matches k ''docs/readme.go''"
      by (simp add: DIR_INFO_def key_matches_def startswith_def)
    then show ?thesis
      using choose_info_longest_prefix [OF d, of "''docs/readme.go''"]
      by (simp add: choose_info_def)
  qed
  show ?thesis using 1 2 3 4 5 6 by blast
qed

end
